theory Spec2Isabelle
  imports Main "HOL-Library.Word"
begin

section \<open>Content checker: the per-URL change-detection workflow of main.ts\<close>

text \<open>
  The development follows \<^verbatim>\<open>src/main.ts\<close>: the derivation of the per-URL key, the
  request handler run by the crawler, the crawler's retry loop, and the loop that
  processes the collected results against the named key-value store.

  Strings are byte strings (a \<^typ>\<open>char\<close> is one byte of the UTF-8 form), buffers are
  lists of 8-bit words. Everything the program does to the outside (logging, pushing
  a dataset item, calling the mail actor, calling a helper of \<^verbatim>\<open>utils.js\<close>) is
  recorded, in order, as a list of effects.
\<close>

subsection \<open>Buffers, base64 and decimal numerals\<close>

type_synonym byte = "8 word"
type_synonym buffer = "byte list"

definition base64_alphabet :: string where
  "base64_alphabet = ''ABCDEFGHIJKLMNOPQRSTUVWXYZabcdefghijklmnopqrstuvwxyz0123456789+/''"

definition b64_char :: "nat \<Rightarrow> char" where
  "b64_char i = base64_alphabet ! (i mod 64)"

text \<open>
  \<^verbatim>\<open>buffer.toString('base64')\<close>: three bytes give four characters of the alphabet;
  a last group of one or two bytes is padded with \<^verbatim>\<open>=\<close>.
\<close>

fun base64 :: "buffer \<Rightarrow> string" where
  "base64 [] = []"
| "base64 [a] =
     (let n = unat a * 65536
      in [b64_char (n div 262144), b64_char (n div 4096 mod 64), CHR ''='', CHR ''=''])"
| "base64 [a, b] =
     (let n = unat a * 65536 + unat b * 256
      in [b64_char (n div 262144), b64_char (n div 4096 mod 64),
          b64_char (n div 64 mod 64), CHR ''=''])"
| "base64 (a # b # c # rest) =
     (let n = unat a * 65536 + unat b * 256 + unat c
      in [b64_char (n div 262144), b64_char (n div 4096 mod 64),
          b64_char (n div 64 mod 64), b64_char (n mod 64)] @ base64 rest)"

text \<open>\<^verbatim>\<open>Buffer.from(s)\<close>: the UTF-8 bytes of the string.\<close>

definition Buffer_from :: "string \<Rightarrow> buffer" where
  "Buffer_from s = map (\<lambda>c. word_of_nat (of_char c)) s"

text \<open>The character class \<^verbatim>\<open>[a-zA-Z0-9]\<close>.\<close>

definition is_alnum :: "char \<Rightarrow> bool" where
  "is_alnum c =
     (let n = (of_char c :: nat)
      in (97 \<le> n \<and> n \<le> 122) \<or> (65 \<le> n \<and> n \<le> 90) \<or> (48 \<le> n \<and> n \<le> 57))"

text \<open>
  Line 81: \<^verbatim>\<open>Buffer.from(urlConfig.url).toString('base64').replace(/[^a-zA-Z0-9]/g, '')\<close>.
\<close>

definition urlKey_of :: "string \<Rightarrow> string" where
  "urlKey_of u = filter is_alnum (base64 (Buffer_from u))"

definition digit_char :: "nat \<Rightarrow> char" where
  "digit_char d = char_of (48 + d)"

text \<open>A number interpolated into a template string.\<close>

fun show_nat :: "nat \<Rightarrow> string" where
  "show_nat n =
     (if n < 10 then [digit_char n] else show_nat (n div 10) @ [digit_char (n mod 10)])"

declare show_nat.simps [simp del]

abbreviation NL :: string where
  "NL \<equiv> [CHR 0x0A]"

subsection \<open>Input\<close>

record UrlConfig =
  url :: string
  contentSelector :: string
  screenshotSelector :: "string option"
  sendNotificationText :: "string option"

datatype RetryStrategy = OnBlock | OnAllErrors | NeverRetry

record Input =
  urls :: "UrlConfig list"
  sendNotificationTo :: string
  navigationTimeout :: "nat option"
  informOnError :: string
  maxRetries :: "nat option"
  retryStrategy :: "RetryStrategy option"

text \<open>The defaults of the destructuring at lines 53-60.\<close>

definition maxRetries_of :: "Input \<Rightarrow> nat" where
  "maxRetries_of inp = (case maxRetries inp of None \<Rightarrow> 5 | Some n \<Rightarrow> n)"

definition retryStrategy_of :: "Input \<Rightarrow> RetryStrategy" where
  "retryStrategy_of inp = (case retryStrategy inp of None \<Rightarrow> OnBlock | Some s \<Rightarrow> s)"

subsection \<open>The request queue\<close>

record Request =
  request_url :: string
  userData_urlConfig :: UrlConfig
  userData_urlKey :: string

text \<open>Lines 76-84.\<close>

definition make_requests :: "UrlConfig list \<Rightarrow> Request list" where
  "make_requests cfgs =
     map (\<lambda>cfg. \<lparr>request_url = url cfg, userData_urlConfig = cfg,
                 userData_urlKey = urlKey_of (url cfg)\<rparr>) cfgs"

subsection \<open>What one visit of a page shows\<close>

text \<open>
  One attempt's view of the browser: the response status, the page title, whether
  \<^verbatim>\<open>injectJQuery\<close> succeeded, the error \<^verbatim>\<open>testForBlocks\<close> threw (if it threw), what
  \<^verbatim>\<open>page.$eval(selector, el => el.textContent)\<close> returns for a selector (\<open>None\<close>: it
  throws), what \<^verbatim>\<open>screenshotDOMElement(page, selector, padding)\<close> returns (\<open>None\<close>: it
  throws), and the full-page screenshot, which is taken to succeed.
\<close>

record Page =
  status :: nat
  title :: string
  injectJQuery_ok :: bool
  testForBlocks_error :: "string option"
  eval_textContent :: "string \<Rightarrow> string option"
  screenshotDOMElement :: "string \<Rightarrow> nat \<Rightarrow> buffer option"
  fullPage_screenshot :: buffer

subsection \<open>Results collected by the request handler\<close>

record UrlResult =
  screenshotBuffer :: "buffer option"
  fullPageScreenshot :: "buffer option"
  content :: "string option"
  urlConfig :: UrlConfig

datatype LogLevel = Info | Warning

text \<open>
  \<^verbatim>\<open>Map.set\<close>: an existing key keeps its place and gets the new value, a new key goes
  to the end.
\<close>

fun map_set :: "'k \<Rightarrow> 'v \<Rightarrow> ('k \<times> 'v) list \<Rightarrow> ('k \<times> 'v) list" where
  "map_set k v [] = [(k, v)]"
| "map_set k v ((k', v') # kvs) =
     (if k' = k then (k, v) # kvs else (k', v') # map_set k v kvs)"

record CrawlState =
  urlResults :: "(string \<times> UrlResult) list"
  crawlLog :: "(LogLevel \<times> string) list"

definition log_line :: "LogLevel \<Rightarrow> string \<Rightarrow> CrawlState \<Rightarrow> CrawlState" where
  "log_line lvl msg st = st\<lparr>crawlLog := crawlLog st @ [(lvl, msg)]\<rparr>"

definition set_result :: "string \<Rightarrow> UrlResult \<Rightarrow> CrawlState \<Rightarrow> CrawlState" where
  "set_result k r st = st\<lparr>urlResults := map_set k r (urlResults st)\<rparr>"

datatype HandlerOutcome = Returned | Threw string

definition content_error_message :: string where
  "content_error_message =
     ''Failed to extract the content, either the content '' @
     ''selector is wrong or page layout changed. Check the full screenshot.''"

definition screenshot_error_message :: string where
  "screenshot_error_message =
     ''Failed to capture the screenshot, either the screenshot or '' @
     ''content selector is wrong or page layout changed. Check the full screenshot.''"

text \<open>Lines 141-176: extraction of the content and of the element screenshot.\<close>

definition extract_and_store ::
  "RetryStrategy \<Rightarrow> UrlConfig \<Rightarrow> string \<Rightarrow> Page \<Rightarrow> CrawlState \<Rightarrow> HandlerOutcome \<times> CrawlState" where
  "extract_and_store strategy cfg urlKey page st =
     (let contentSel = contentSelector cfg;
          screenshotSel = (case screenshotSelector cfg of None \<Rightarrow> contentSel | Some s \<Rightarrow> s);
          content_r = eval_textContent page contentSel;
          errorMessage1 = (case content_r of None \<Rightarrow> Some content_error_message | Some _ \<Rightarrow> None);
          shot_r = (if errorMessage1 = None then screenshotDOMElement page screenshotSel 10 else None);
          errorMessage = (if errorMessage1 = None
                          then (case shot_r of None \<Rightarrow> Some screenshot_error_message | Some _ \<Rightarrow> None)
                          else errorMessage1)
      in case errorMessage of
           Some msg \<Rightarrow>
             (let st' = set_result urlKey
                          \<lparr>screenshotBuffer = None,
                           fullPageScreenshot = Some (fullPage_screenshot page),
                           content = None, urlConfig = cfg\<rparr> st
              in if strategy = OnAllErrors then (Threw (msg @ '' Will retry...''), st')
                 else (Returned, log_line Warning msg st'))
         | None \<Rightarrow>
             (Returned,
              set_result urlKey
                \<lparr>screenshotBuffer = shot_r, fullPageScreenshot = None,
                 content = content_r, urlConfig = cfg\<rparr> st))"

text \<open>Lines 107-177: the request handler.\<close>

definition requestHandler ::
  "RetryStrategy \<Rightarrow> Request \<Rightarrow> Page \<Rightarrow> CrawlState \<Rightarrow> HandlerOutcome \<times> CrawlState" where
  "requestHandler strategy request page st =
     (let cfg = userData_urlConfig request;
          urlKey = userData_urlKey request
      in if status page = 404 then
           (Returned,
            log_line Warning (''404 Status - Page not found! Please change the URL: '' @ url cfg) st)
         else if status page \<ge> 400 then
           (Threw (''Response status: '' @ show_nat (status page) @
                   ''. Probably got blocked, trying again!''), st)
         else
           (let st1 = log_line Info
                        (''Page loaded with title: '' @ title page @ '' on URL: '' @ url cfg) st;
                st2 = log_line Info ''Sleeping 5s ...'' st1;
                st3 = (if injectJQuery_ok page then st2
                       else log_line Warning
                              ''Could not inject JQuery so cannot test captcha presence'' st2)
            in case testForBlocks_error page of
                 Some e \<Rightarrow>
                   (Threw e,
                    set_result urlKey
                      \<lparr>screenshotBuffer = None,
                       fullPageScreenshot = Some (fullPage_screenshot page),
                       content = None, urlConfig = cfg\<rparr> st3)
               | None \<Rightarrow>
                   extract_and_store strategy cfg urlKey page
                     (log_line Info ''Saving screenshot...'' st3)))"

subsection \<open>The crawler's retry loop\<close>

text \<open>Line 97: \<^verbatim>\<open>maxRequestRetries: retryStrategy === 'never-retry' ? 0 : maxRetries\<close>.\<close>

definition maxRequestRetries :: "RetryStrategy \<Rightarrow> nat \<Rightarrow> nat" where
  "maxRequestRetries strategy maxRetries' = (if strategy = NeverRetry then 0 else maxRetries')"

datatype RequestFate = Handled | Failed

text \<open>
  The crawler of the crawling library calls the handler on a request; when the handler
  throws and the request's retry count is below \<^verbatim>\<open>maxRequestRetries\<close>, the count is
  incremented and the request is visited again; otherwise the request has failed. A
  handler that returns marks the request as handled. \<open>pages k\<close> is what the visit with
  retry count \<open>k\<close> shows. The result is the request's fate, the number of visits made,
  and the state.
\<close>

function handle_request ::
  "RetryStrategy \<Rightarrow> nat \<Rightarrow> Request \<Rightarrow> (nat \<Rightarrow> Page) \<Rightarrow> nat \<Rightarrow> CrawlState
     \<Rightarrow> RequestFate \<times> nat \<times> CrawlState" where
  "handle_request strategy maxReq request pages retryCount st =
     (let r = requestHandler strategy request (pages retryCount) st
      in if fst r = Returned then (Handled, retryCount + 1, snd r)
         else if retryCount < maxReq
              then handle_request strategy maxReq request pages (retryCount + 1) (snd r)
              else (Failed, retryCount + 1, snd r))"
  by pat_completeness auto
termination
  by (relation "measure (\<lambda>(strategy, maxReq, request, pages, retryCount, st). maxReq - retryCount)")
     auto

declare handle_request.simps [simp del]

text \<open>
  \<^verbatim>\<open>crawler.run()\<close>, one request after the other; \<open>pages u k\<close> is what the visit of
  url \<open>u\<close> with retry count \<open>k\<close> shows. The queue's removal of requests with the same
  url is not modelled.
\<close>

fun crawler_run ::
  "RetryStrategy \<Rightarrow> nat \<Rightarrow> (string \<Rightarrow> nat \<Rightarrow> Page) \<Rightarrow> Request list \<Rightarrow> CrawlState \<Rightarrow> CrawlState" where
  "crawler_run strategy maxReq pages [] st = st"
| "crawler_run strategy maxReq pages (request # rest) st =
     crawler_run strategy maxReq pages rest
       (snd (snd (handle_request strategy maxReq request (pages (request_url request)) 0 st)))"

subsection \<open>The named key-value store and the effects of the run\<close>

datatype KvValue = Str string | Buf buffer

type_synonym KvStore = "string \<Rightarrow> KvValue option"

text \<open>
  \<^verbatim>\<open>store.getValue(key)\<close> is \<open>null\<close> (here \<open>None\<close>) for a key without a record;
  \<^verbatim>\<open>store.setValue(key, value)\<close> with \<open>null\<close> deletes the record.
\<close>

definition getValue :: "KvStore \<Rightarrow> string \<Rightarrow> KvValue option" where
  "getValue kv k = kv k"

definition setValue :: "string \<Rightarrow> KvValue option \<Rightarrow> KvStore \<Rightarrow> KvStore" where
  "setValue k v kv = kv(k := v)"

record DatasetItem =
  item_url :: string
  item_previousData :: "KvValue option"
  item_content :: string
  item_previousScreenshotUrl :: "string option"
  item_currentScreenshotUrl :: string
  item_sendNotificationTo :: string
  item_isFirstRun :: "bool option"

record Attachment =
  att_filename :: string
  att_data :: string

record Mail =
  mail_to :: string
  mail_subject :: string
  mail_text :: string
  mail_attachments :: "Attachment list"

record FailedArgs =
  failed_type :: string
  failed_fullPageScreenshot :: "buffer option"
  failed_informOnError :: string
  failed_sendNotificationTo :: string
  failed_url :: string

record SlackArgs =
  slack_url :: string
  slack_previousData :: "KvValue option"
  slack_content :: string
  slack_kvStoreId :: string

text \<open>
  \<open>ActorSetValue k a\<close> stands for \<^verbatim>\<open>Actor.setValue(k, createSlackMessage(a))\<close> and
  \<open>HandleFailedAndThrow a\<close> for the call \<^verbatim>\<open>handleFailedAndThrow(a)\<close>; both helpers
  belong to \<^verbatim>\<open>utils.js\<close>.
\<close>

datatype Effect =
    Log LogLevel string
  | PushData DatasetItem
  | ActorSetValue string SlackArgs
  | ActorCall string Mail
  | HandleFailedAndThrow FailedArgs

record World =
  store :: KvStore
  effects :: "Effect list"

definition emit :: "Effect \<Rightarrow> World \<Rightarrow> World" where
  "emit e w = w\<lparr>effects := effects w @ [e]\<rparr>"

definition store_set :: "string \<Rightarrow> KvValue option \<Rightarrow> World \<Rightarrow> World" where
  "store_set k v w = w\<lparr>store := setValue k v (store w)\<rparr>"

text \<open>
  What the run takes from its surroundings: the constant of \<^verbatim>\<open>consts.js\<close>, the
  store's \<^verbatim>\<open>getPublicUrl\<close> and \<^verbatim>\<open>id\<close>, and whether a call of
  \<^verbatim>\<open>handleFailedAndThrow\<close> throws.
\<close>

record Env =
  MAX_ATTACHMENT_SIZE_BYTES :: nat
  getPublicUrl :: "string \<Rightarrow> string"
  store_id :: string
  handleFailed_throws :: "FailedArgs \<Rightarrow> bool"

text \<open>A stored value interpolated into a template string.\<close>

definition template_value :: "KvValue option \<Rightarrow> string" where
  "template_value v =
     (case v of None \<Rightarrow> ''null'' | Some (Str s) \<Rightarrow> s
      | Some (Buf b) \<Rightarrow> map (\<lambda>x. char_of (unat x)) b)"

text \<open>\<^verbatim>\<open>value.toString('base64')\<close>; a string ignores the argument.\<close>

definition toString_base64 :: "KvValue \<Rightarrow> string" where
  "toString_base64 v = (case v of Buf b \<Rightarrow> base64 b | Str s \<Rightarrow> s)"

subsection \<open>The notification mail\<close>

text \<open>Line 277: the test that decides whether the screenshots are attached.\<close>

definition attachments_fit :: "Env \<Rightarrow> KvValue \<Rightarrow> buffer \<Rightarrow> bool" where
  "attachments_fit env previousScreenshot screenshotBuf =
     (length (toString_base64 previousScreenshot) + length (base64 screenshotBuf)
        < MAX_ATTACHMENT_SIZE_BYTES env)"

definition mail_base_text :: "string \<Rightarrow> string \<Rightarrow> KvValue option \<Rightarrow> string \<Rightarrow> string" where
  "mail_base_text u notificationNote previousData cont =
     ''URL: '' @ u @ NL @ NL @ notificationNote @ ''Previous data: '' @
     template_value previousData @ NL @ NL @ ''Current data: '' @ cont"

definition disclosure :: "Env \<Rightarrow> string" where
  "disclosure env =
     ''Screenshots are bigger than '' @ show_nat (MAX_ATTACHMENT_SIZE_BYTES env) @
     '', not sending them as part of email attachment.''"

text \<open>Lines 272-296: the argument of the call of \<^verbatim>\<open>apify/send-mail\<close>.\<close>

definition notification_mail ::
  "Env \<Rightarrow> string \<Rightarrow> string \<Rightarrow> string \<Rightarrow> string \<Rightarrow> KvValue option \<Rightarrow> string
     \<Rightarrow> KvValue \<Rightarrow> buffer \<Rightarrow> Mail" where
  "notification_mail env sendTo u urlKey notificationNote previousData cont
       previousScreenshot screenshotBuf =
     (let previousScreenshotBase64 = toString_base64 previousScreenshot;
          currentScreenshotBase64 = base64 screenshotBuf;
          txt = mail_base_text u notificationNote previousData cont
      in if attachments_fit env previousScreenshot screenshotBuf then
           \<lparr>mail_to = sendTo,
            mail_subject = ''Apify content checker - page changed! ('' @ u @ '')'',
            mail_text = txt,
            mail_attachments =
              [\<lparr>att_filename = ''previousScreenshot_'' @ urlKey @ ''.png'',
                att_data = previousScreenshotBase64\<rparr>,
               \<lparr>att_filename = ''currentScreenshot_'' @ urlKey @ ''.png'',
                att_data = currentScreenshotBase64\<rparr>]\<rparr>
         else
           \<lparr>mail_to = sendTo,
            mail_subject = ''Apify content checker - page changed! ('' @ u @ '')'',
            mail_text = txt @ NL @ NL @ disclosure env,
            mail_attachments = []\<rparr>)"

subsection \<open>Processing the results\<close>

datatype StepOutcome = FailedScreenshot | FailedContent | FirstRun | Unchanged | Changed

definition failed_args :: "Input \<Rightarrow> UrlResult \<Rightarrow> FailedArgs" where
  "failed_args inp result =
     \<lparr>failed_type = ''screenshot'',
      failed_fullPageScreenshot = fullPageScreenshot result,
      failed_informOnError = informOnError inp,
      failed_sendNotificationTo = sendNotificationTo inp,
      failed_url = url (urlConfig result)\<rparr>"

text \<open>Lines 247-300: the branch taken when the content differs.\<close>

definition report_change ::
  "Env \<Rightarrow> Input \<Rightarrow> string \<Rightarrow> UrlConfig \<Rightarrow> KvValue option \<Rightarrow> string \<Rightarrow> KvValue \<Rightarrow> buffer
     \<Rightarrow> World \<Rightarrow> World" where
  "report_change env inp urlKey cfg previousData cont previousScreenshot screenshotBuf w =
     (let u = url cfg;
          currentScreenshotKey = ''currentScreenshot_'' @ urlKey @ ''.png'';
          w1 = emit (Log Warning (''Content changed for URL: '' @ u)) w;
          notificationNote =
            (case sendNotificationText cfg of
               None \<Rightarrow> []
             | Some t \<Rightarrow> if t = [] then [] else ''Note: '' @ t @ NL @ NL);
          w2 = emit (ActorSetValue (''SLACK_MESSAGE_'' @ urlKey)
                       \<lparr>slack_url = u, slack_previousData = previousData,
                        slack_content = cont, slack_kvStoreId = store_id env\<rparr>) w1;
          w3 = emit (PushData
                       \<lparr>item_url = u, item_previousData = previousData, item_content = cont,
                        item_previousScreenshotUrl =
                          Some (getPublicUrl env (''previousScreenshot_'' @ urlKey @ ''.png'')),
                        item_currentScreenshotUrl = getPublicUrl env currentScreenshotKey,
                        item_sendNotificationTo = sendNotificationTo inp,
                        item_isFirstRun = None\<rparr>) w2
      in if sendNotificationTo inp \<noteq> [] then
           (let w4 = emit (Log Info (''Sending mail to '' @ sendNotificationTo inp @
                                     '' for URL: '' @ u @ ''...'')) w3;
                w5 = (if attachments_fit env previousScreenshot screenshotBuf then w4
                      else emit (Log Warning
                                   (''Screenshots are bigger than '' @
                                    show_nat (MAX_ATTACHMENT_SIZE_BYTES env) @
                                    '', not sending them as part of email attachment for URL: '' @
                                    u @ ''.'')) w4)
            in emit (ActorCall ''apify/send-mail''
                       (notification_mail env (sendNotificationTo inp) u urlKey notificationNote
                          previousData cont previousScreenshot screenshotBuf)) w5)
         else
           emit (Log Warning (''No e-mail address provided, email notification skipped for URL: '' @ u))
             w3)"

text \<open>
  Lines 210-301: what the loop does for a result that has a screenshot buffer and a
  non-empty content. The outcome names the branch taken.
\<close>

definition compare_and_report ::
  "Env \<Rightarrow> Input \<Rightarrow> string \<Rightarrow> UrlConfig \<Rightarrow> buffer \<Rightarrow> string \<Rightarrow> World \<Rightarrow> StepOutcome \<times> World" where
  "compare_and_report env inp urlKey cfg screenshotBuf cont w =
     (let u = url cfg;
          currentScreenshotKey = ''currentScreenshot_'' @ urlKey @ ''.png'';
          currentDataKey = ''currentData_'' @ urlKey;
          w1 = store_set currentScreenshotKey (Some (Buf screenshotBuf)) w;
          w2 = store_set currentDataKey (Some (Str cont)) w1;
          previousScreenshot = getValue (store w2) (''previousScreenshot_'' @ urlKey @ ''.png'');
          previousData = getValue (store w2) (''previousData_'' @ urlKey);
          w3 = emit (Log Info (''Processing URL: '' @ u)) w2;
          w4 = emit (Log Info (''Previous data: '' @ template_value previousData)) w3;
          w5 = emit (Log Info (''Current data: '' @ cont)) w4
      in case previousScreenshot of
           None \<Rightarrow>
             (FirstRun,
              emit (PushData
                      \<lparr>item_url = u, item_previousData = None, item_content = cont,
                       item_previousScreenshotUrl = None,
                       item_currentScreenshotUrl = getPublicUrl env currentScreenshotKey,
                       item_sendNotificationTo = sendNotificationTo inp,
                       item_isFirstRun = Some True\<rparr>)
                (emit (Log Warning (''Running for the first time for URL: '' @ u @ '', no check'')) w5))
         | Some prevShot \<Rightarrow>
             (let w6 = store_set (''previousScreenshot_'' @ urlKey @ ''.png'') previousScreenshot w5;
                  w7 = store_set (''previousData_'' @ urlKey) previousData w6
              in if previousData = Some (Str cont) then
                   (Unchanged, emit (Log Warning (''No change for URL: '' @ u)) w7)
                 else
                   (Changed,
                    report_change env inp urlKey cfg previousData cont prevShot screenshotBuf w7)))"

text \<open>
  Lines 183-302: one iteration of the loop over \<^verbatim>\<open>urlResults\<close>. The second component
  tells whether the iteration ended by an exception of \<^verbatim>\<open>handleFailedAndThrow\<close>.
\<close>

definition process_result ::
  "Env \<Rightarrow> Input \<Rightarrow> string \<Rightarrow> UrlResult \<Rightarrow> World \<Rightarrow> StepOutcome \<times> bool \<times> World" where
  "process_result env inp urlKey result w =
     (case screenshotBuffer result of
        None \<Rightarrow>
          (FailedScreenshot, handleFailed_throws env (failed_args inp result),
           emit (HandleFailedAndThrow (failed_args inp result)) w)
      | Some screenshotBuf \<Rightarrow>
          (case content result of
             None \<Rightarrow>
               (FailedContent, handleFailed_throws env (failed_args inp result),
                emit (HandleFailedAndThrow (failed_args inp result)) w)
           | Some cont \<Rightarrow>
               if cont = [] then
                 (FailedContent, handleFailed_throws env (failed_args inp result),
                  emit (HandleFailedAndThrow (failed_args inp result)) w)
               else
                 (case compare_and_report env inp urlKey (urlConfig result) screenshotBuf cont w of
                    (oc, w') \<Rightarrow> (oc, False, w'))))"

text \<open>
  The loop: the outcomes for the keys processed, whether an exception ended the loop,
  and the world afterwards.
\<close>

fun process_results ::
  "Env \<Rightarrow> Input \<Rightarrow> (string \<times> UrlResult) list \<Rightarrow> World
     \<Rightarrow> (string \<times> StepOutcome) list \<times> bool \<times> World" where
  "process_results env inp [] w = ([], False, w)"
| "process_results env inp ((urlKey, result) # rest) w =
     (case process_result env inp urlKey result w of
        (oc, threw, w') \<Rightarrow>
          if threw then ([(urlKey, oc)], True, w')
          else (case process_results env inp rest w' of
                  (ocs, threw', w'') \<Rightarrow> ((urlKey, oc) # ocs, threw', w'')))"

subsection \<open>A run\<close>

text \<open>
  Lines 53-302: the requests are queued, the crawler runs, the results are processed
  against the store the run started with. The closing log lines, which only read the
  store, are left out.
\<close>

definition crawl :: "Input \<Rightarrow> (string \<Rightarrow> nat \<Rightarrow> Page) \<Rightarrow> CrawlState" where
  "crawl inp pages =
     crawler_run (retryStrategy_of inp)
       (maxRequestRetries (retryStrategy_of inp) (maxRetries_of inp)) pages
       (make_requests (urls inp)) \<lparr>urlResults = [], crawlLog = []\<rparr>"

definition run_actor ::
  "Env \<Rightarrow> Input \<Rightarrow> (string \<Rightarrow> nat \<Rightarrow> Page) \<Rightarrow> KvStore
     \<Rightarrow> (string \<times> StepOutcome) list \<times> bool \<times> World" where
  "run_actor env inp pages kv =
     process_results env inp (urlResults (crawl inp pages)) \<lparr>store = kv, effects = []\<rparr>"

subsection \<open>Kinds of visit\<close>


definition server_error :: "Page \<Rightarrow> bool" where
  "server_error page = (status page \<ge> 400 \<and> status page \<noteq> 404)"

definition block_detected :: "Page \<Rightarrow> bool" where
  "block_detected page = (status page < 400 \<and> testForBlocks_error page \<noteq> None)"

definition selector_failure :: "UrlConfig \<Rightarrow> Page \<Rightarrow> bool" where
  "selector_failure cfg page =
     (status page < 400 \<and> testForBlocks_error page = None \<and>
      (eval_textContent page (contentSelector cfg) = None \<or>
       screenshotDOMElement page
         (case screenshotSelector cfg of None \<Rightarrow> contentSelector cfg | Some s \<Rightarrow> s) 10 = None))"

subsection \<open>Example inputs\<close>

definition ex_env :: Env where
  "ex_env = \<lparr>MAX_ATTACHMENT_SIZE_BYTES = 16, getPublicUrl = (\<lambda>k. ''https://kv/'' @ k),
             store_id = ''kv'', handleFailed_throws = (\<lambda>a. False)\<rparr>"

definition ex_cfg :: UrlConfig where
  "ex_cfg = \<lparr>url = ''https://ab.io/'', contentSelector = ''h1'', screenshotSelector = None,
             sendNotificationText = None\<rparr>"

definition ex_request :: Request where
  "ex_request = \<lparr>request_url = ''https://ab.io/'', userData_urlConfig = ex_cfg,
                 userData_urlKey = ''aHR0cHM6Ly9hYi5pby8''\<rparr>"

definition ex_input :: "RetryStrategy \<Rightarrow> Input" where
  "ex_input strategy =
     \<lparr>urls = [ex_cfg], sendNotificationTo = ''me@ab.io'', navigationTimeout = None,
      informOnError = ''false'', maxRetries = None, retryStrategy = Some strategy\<rparr>"

definition page_ok :: Page where
  "page_ok = \<lparr>status = 200, title = ''T'', injectJQuery_ok = True, testForBlocks_error = None,
              eval_textContent = (\<lambda>sel. Some ''hello''),
              screenshotDOMElement = (\<lambda>sel padding. Some [1, 2, 3]),
              fullPage_screenshot = [9]\<rparr>"


definition page_503 :: Page where
  "page_503 = page_ok\<lparr>status := 503\<rparr>"

definition page_no_content :: Page where
  "page_no_content = page_ok\<lparr>eval_textContent := (\<lambda>sel. None)\<rparr>"

definition ex_world :: World where
  "ex_world =
     \<lparr>store = [''previousScreenshot_k.png'' \<mapsto> Buf [7], ''previousData_k'' \<mapsto> Str ''Hello''],
      effects = []\<rparr>"

definition ex_baseline :: KvStore where
  "ex_baseline =
     [''previousScreenshot_aHR0cHM6Ly9hYi5pby8.png'' \<mapsto> Buf [7],
      ''previousData_aHR0cHM6Ly9hYi5pby8'' \<mapsto> Str ''old text'']"

definition ex_input2 :: Input where
  "ex_input2 =
     (ex_input OnBlock)
       \<lparr>urls := [ex_cfg\<lparr>url := ''https://ab.io/?q=1''\<rparr>, ex_cfg\<lparr>url := ''https://ab.io/>q=1''\<rparr>]\<rparr>"

definition page_blocked :: Page where
  "page_blocked = page_ok\<lparr>testForBlocks_error := Some ''captcha''\<rparr>"


section \<open>Auxiliary facts\<close>

lemma length_base64: "length (base64 bs) = 4 * ((length bs + 2) div 3)"
proof (induction bs rule: base64.induct)
  case (4 a b c rest)
  have "(length (a # b # c # rest) + 2) div 3 = Suc ((length rest + 2) div 3)"
    by simp
  with 4 show ?case by (simp add: Let_def)
qed (simp_all add: Let_def)





lemma requestHandler_server_error:
  "server_error page \<Longrightarrow>
   requestHandler s r page st =
     (Threw (''Response status: '' @ show_nat (status page) @
             ''. Probably got blocked, trying again!''), st)"
  by (simp add: requestHandler_def server_error_def)

lemma requestHandler_blocked:
  "block_detected page \<Longrightarrow> fst (requestHandler s r page st) = Threw (the (testForBlocks_error page))"
  by (auto simp add: requestHandler_def block_detected_def Let_def)

lemma extract_selector_failure:
  "selector_failure cfg page \<Longrightarrow>
   extract_and_store s cfg k page st =
     (let msg = (if eval_textContent page (contentSelector cfg) = None
                 then content_error_message else screenshot_error_message);
          st' = set_result k \<lparr>screenshotBuffer = None,
                           fullPageScreenshot = Some (fullPage_screenshot page),
                           content = None, urlConfig = cfg\<rparr> st
      in if s = OnAllErrors then (Threw (msg @ '' Will retry...''), st')
         else (Returned, log_line Warning msg st'))"
  by (auto simp add: extract_and_store_def selector_failure_def Let_def split: option.splits)

lemma requestHandler_unblocked:
  assumes "status page < 400" and "testForBlocks_error page = None"
  shows "requestHandler s r page st =
           extract_and_store s (userData_urlConfig r) (userData_urlKey r) page
             (st\<lparr>crawlLog := crawlLog st @
                  [(Info, ''Page loaded with title: '' @ title page @ '' on URL: '' @
                          url (userData_urlConfig r)),
                   (Info, ''Sleeping 5s ...'')] @
                  (if injectJQuery_ok page then []
                   else [(Warning, ''Could not inject JQuery so cannot test captcha presence'')]) @
                  [(Info, ''Saving screenshot...'')]\<rparr>)"
  using assms by (simp add: requestHandler_def Let_def log_line_def)

lemma requestHandler_selector_failure_fst:
  assumes "selector_failure (userData_urlConfig r) page"
  shows "(fst (requestHandler s r page st) = Returned) = (s \<noteq> OnAllErrors)"
proof -
  from assms have "status page < 400" and "testForBlocks_error page = None"
    by (simp_all add: selector_failure_def)
  then show ?thesis
    by (simp add: requestHandler_unblocked extract_selector_failure [OF assms] Let_def)
qed

lemma map_of_map_set: "map_of (map_set k v xs) k = Some v"
  by (induction xs) auto

lemma requestHandler_selector_failure_entry:
  assumes "selector_failure (userData_urlConfig r) page"
  shows "map_of (urlResults (snd (requestHandler s r page st))) (userData_urlKey r) =
     Some \<lparr>screenshotBuffer = None, fullPageScreenshot = Some (fullPage_screenshot page),
           content = None, urlConfig = userData_urlConfig r\<rparr>"
proof -
  from assms have "status page < 400" and "testForBlocks_error page = None"
    by (simp_all add: selector_failure_def)
  then show ?thesis
    by (simp add: requestHandler_unblocked extract_selector_failure [OF assms] Let_def
          set_result_def log_line_def map_of_map_set)
qed

lemma handle_request_returned:
  "fst (requestHandler s r (pages k) st) = Returned \<Longrightarrow>
   handle_request s m r pages k st = (Handled, k + 1, snd (requestHandler s r (pages k) st))"
  by (simp add: handle_request.simps [of s m r pages k st] Let_def)

lemma handle_request_retry:
  "fst (requestHandler s r (pages k) st) \<noteq> Returned \<Longrightarrow> k < m \<Longrightarrow>
   handle_request s m r pages k st =
     handle_request s m r pages (k + 1) (snd (requestHandler s r (pages k) st))"
  by (simp add: handle_request.simps [of s m r pages k st] Let_def)

lemma handle_request_exhausted:
  "fst (requestHandler s r (pages k) st) \<noteq> Returned \<Longrightarrow> \<not> k < m \<Longrightarrow>
   handle_request s m r pages k st = (Failed, k + 1, snd (requestHandler s r (pages k) st))"
  by (simp add: handle_request.simps [of s m r pages k st] Let_def)

lemma handle_request_all_throw:
  assumes "\<And>j st'. fst (requestHandler s r (pages j) st') \<noteq> Returned" and "k \<le> m"
  shows "fst (handle_request s m r pages k st) = Failed \<and>
         fst (snd (handle_request s m r pages k st)) = m + 1"
  using assms(2)
proof (induction "m - k" arbitrary: k st)
  case 0
  have nr: "fst (requestHandler s r (pages k) st) \<noteq> Returned" by (rule assms(1))
  from 0 have "\<not> k < m" and "k = m" by simp_all
  then show ?case using nr handle_request_exhausted [where s = s and r = r and pages = pages and k = k and st = st and m = m] by simp
next
  case (Suc d)
  have nr: "fst (requestHandler s r (pages k) st) \<noteq> Returned" by (rule assms(1))
  from Suc have lt: "k < m" by simp
  have "d = m - (k + 1)" using Suc.hyps(2) by simp
  moreover have "k + 1 \<le> m" using lt by simp
  ultimately show ?case
    using nr lt Suc.hyps(1) [of "k + 1"]
      handle_request_retry [where s = s and r = r and pages = pages and k = k and st = st and m = m]
    by simp
qed

lemma handle_request_server_errors:
  assumes "\<And>j. server_error (pages j)" and "k \<le> m"
  shows "handle_request s m r pages k st = (Failed, m + 1, st)"
  using assms(2)
proof (induction "m - k" arbitrary: k)
  case 0
  then have "\<not> k < m" and "k = m" by simp_all
  moreover have "fst (requestHandler s r (pages k) st) \<noteq> Returned"
    by (simp add: requestHandler_server_error [OF assms(1)])
  ultimately show ?case
    using handle_request_exhausted [where s = s and r = r and pages = pages and k = k and st = st and m = m]
    by (simp add: requestHandler_server_error [OF assms(1)])
next
  case (Suc d)
  then have lt: "k < m" by simp
  have "d = m - (k + 1)" using Suc.hyps(2) by simp
  moreover have "k + 1 \<le> m" using lt by simp
  moreover have "fst (requestHandler s r (pages k) st) \<noteq> Returned"
    by (simp add: requestHandler_server_error [OF assms(1)])
  ultimately show ?case
    using Suc.hyps(1) [of "k + 1"] lt
      handle_request_retry [where s = s and r = r and pages = pages and k = k and st = st and m = m]
    by (simp add: requestHandler_server_error [OF assms(1)])
qed

lemma prev_keys:
  "''currentScreenshot_'' @ k @ ''.png'' \<noteq> ''previousScreenshot_'' @ k' @ ''.png''"
  "''currentData_'' @ k \<noteq> ''previousScreenshot_'' @ k' @ ''.png''"
  "''currentScreenshot_'' @ k @ ''.png'' \<noteq> ''previousData_'' @ k'"
  "''currentData_'' @ k \<noteq> ''previousData_'' @ k'"
  by simp_all

lemma classify:
  assumes "c \<noteq> []"
  shows "fst (process_result env inp k
                \<lparr>screenshotBuffer = Some sb, fullPageScreenshot = fp, content = Some c,
                 urlConfig = cfg\<rparr> w) =
   (case store w (''previousScreenshot_'' @ k @ ''.png'') of
      None \<Rightarrow> FirstRun
    | Some p \<Rightarrow> if store w (''previousData_'' @ k) = Some (Str c) then Unchanged else Changed)"
  using assms
  by (simp add: process_result_def compare_and_report_def Let_def store_set_def setValue_def
        getValue_def emit_def split: option.splits)

lemma ex_key: "urlKey_of ''https://ab.io/'' = ''aHR0cHM6Ly9hYi5pby8''"
  by (simp add: urlKey_of_def Buffer_from_def base64_alphabet_def b64_char_def is_alnum_def)

lemma ex_requests: "make_requests (urls (ex_input s)) = [ex_request]"
  by (simp add: make_requests_def ex_input_def ex_request_def ex_cfg_def ex_key)

lemma ex_params: "retryStrategy_of (ex_input s) = s" "maxRetries_of (ex_input s) = 5"
  by (simp_all add: retryStrategy_of_def maxRetries_of_def ex_input_def)

lemma server_error_503: "server_error page_503"
  by (simp add: server_error_def page_503_def page_ok_def)

lemma crawl_503: "crawl (ex_input OnBlock) (\<lambda>u k. page_503) = \<lparr>urlResults = [], crawlLog = []\<rparr>"
  by (simp add: crawl_def ex_requests handle_request_server_errors server_error_503)

lemma handler_ok:
  "requestHandler s ex_request page_ok \<lparr>urlResults = [], crawlLog = []\<rparr> =
    (Returned,
     \<lparr>urlResults =
        [(''aHR0cHM6Ly9hYi5pby8'',
          \<lparr>screenshotBuffer = Some [1, 2, 3], fullPageScreenshot = None,
           content = Some ''hello'', urlConfig = ex_cfg\<rparr>)],
      crawlLog =
        [(Info, ''Page loaded with title: T on URL: https://ab.io/''),
         (Info, ''Sleeping 5s ...''), (Info, ''Saving screenshot...'')]\<rparr>)"
  by (simp add: requestHandler_def extract_and_store_def Let_def log_line_def set_result_def
        ex_request_def ex_cfg_def page_ok_def)

lemma crawl_ok:
  "urlResults (crawl (ex_input s) (\<lambda>u k. page_ok)) =
     [(''aHR0cHM6Ly9hYi5pby8'',
       \<lparr>screenshotBuffer = Some [1, 2, 3], fullPageScreenshot = None,
        content = Some ''hello'', urlConfig = ex_cfg\<rparr>)]"
  by (simp add: crawl_def ex_requests handle_request_returned handler_ok)

lemma compare_and_report_keeps_previous:
  "store (snd (compare_and_report env inp k cfg sb c w)) (''previousScreenshot_'' @ k' @ ''.png'')
     = store w (''previousScreenshot_'' @ k' @ ''.png'')"
  "store (snd (compare_and_report env inp k cfg sb c w)) (''previousData_'' @ k')
     = store w (''previousData_'' @ k')"
  by (auto simp add: compare_and_report_def report_change_def Let_def store_set_def setValue_def
        getValue_def emit_def split: option.splits)

lemma process_result_keeps_previous:
  "store (snd (snd (process_result env inp k r w))) (''previousScreenshot_'' @ k' @ ''.png'')
     = store w (''previousScreenshot_'' @ k' @ ''.png'')"
  "store (snd (snd (process_result env inp k r w))) (''previousData_'' @ k')
     = store w (''previousData_'' @ k')"
  using compare_and_report_keeps_previous [of env inp k "urlConfig r" _ _ w k']
  by (simp_all add: process_result_def emit_def split_beta split: option.splits)

lemma run_ok:
  "fst (run_actor ex_env (ex_input s) (\<lambda>u k. page_ok) kv) =
     [(''aHR0cHM6Ly9hYi5pby8'',
       fst (process_result ex_env (ex_input s) ''aHR0cHM6Ly9hYi5pby8''
              \<lparr>screenshotBuffer = Some [1, 2, 3], fullPageScreenshot = None,
               content = Some ''hello'', urlConfig = ex_cfg\<rparr> \<lparr>store = kv, effects = []\<rparr>))]"
  "store (snd (snd (run_actor ex_env (ex_input s) (\<lambda>u k. page_ok) kv))) =
     store (snd (snd (process_result ex_env (ex_input s) ''aHR0cHM6Ly9hYi5pby8''
              \<lparr>screenshotBuffer = Some [1, 2, 3], fullPageScreenshot = None,
               content = Some ''hello'', urlConfig = ex_cfg\<rparr> \<lparr>store = kv, effects = []\<rparr>)))"
  by (simp_all add: run_actor_def crawl_ok split_beta)

lemma run_ok_outcome:
  "fst (run_actor ex_env (ex_input s) (\<lambda>u k. page_ok) kv) =
     [(''aHR0cHM6Ly9hYi5pby8'',
       case kv ''previousScreenshot_aHR0cHM6Ly9hYi5pby8.png'' of
         None \<Rightarrow> FirstRun
       | Some p \<Rightarrow> if kv ''previousData_aHR0cHM6Ly9hYi5pby8'' = Some (Str ''hello'')
                   then Unchanged else Changed)]"
  using classify [of "''hello''" ex_env "ex_input s" "''aHR0cHM6Ly9hYi5pby8''" "[1, 2, 3]" None ex_cfg
                    "\<lparr>store = kv, effects = []\<rparr>"]
  by (simp add: run_ok(1))

lemma run_ok_previous:
  "store (snd (snd (run_actor ex_env (ex_input s) (\<lambda>u k. page_ok) kv)))
     ''previousScreenshot_aHR0cHM6Ly9hYi5pby8.png'' = kv ''previousScreenshot_aHR0cHM6Ly9hYi5pby8.png''"
  "store (snd (snd (run_actor ex_env (ex_input s) (\<lambda>u k. page_ok) kv)))
     ''previousData_aHR0cHM6Ly9hYi5pby8'' = kv ''previousData_aHR0cHM6Ly9hYi5pby8''"
  using process_result_keeps_previous
          [of ex_env "ex_input s" "''aHR0cHM6Ly9hYi5pby8''"
              "\<lparr>screenshotBuffer = Some [1, 2, 3], fullPageScreenshot = None,
               content = Some ''hello'', urlConfig = ex_cfg\<rparr>"
              "\<lparr>store = kv, effects = []\<rparr>" "''aHR0cHM6Ly9hYi5pby8''"]
  by (simp_all add: run_ok(2))

lemma handler_page_ok:
  "requestHandler s r page_ok st =
    (Returned,
     st\<lparr>urlResults :=
          map_set (userData_urlKey r)
            \<lparr>screenshotBuffer = Some [1, 2, 3], fullPageScreenshot = None,
             content = Some ''hello'', urlConfig = userData_urlConfig r\<rparr> (urlResults st),
        crawlLog := crawlLog st @
          [(Info, ''Page loaded with title: T on URL: '' @ url (userData_urlConfig r)),
           (Info, ''Sleeping 5s ...''), (Info, ''Saving screenshot...'')]\<rparr>)"
  by (simp add: requestHandler_def extract_and_store_def Let_def log_line_def set_result_def
        page_ok_def)

lemma ex_colliding_keys:
  "urlKey_of ''https://ab.io/?q=1'' = ''aHR0cHM6Ly9hYi5pby8cT0x''"
  "urlKey_of ''https://ab.io/>q=1'' = ''aHR0cHM6Ly9hYi5pby8cT0x''"
  by (simp_all add: urlKey_of_def Buffer_from_def base64_alphabet_def b64_char_def is_alnum_def)

lemma colliding_urls_share_one_result:
  "urlResults (crawl ex_input2 (\<lambda>u k. page_ok)) =
     [(''aHR0cHM6Ly9hYi5pby8cT0x'',
       \<lparr>screenshotBuffer = Some [1, 2, 3], fullPageScreenshot = None,
        content = Some ''hello'', urlConfig = ex_cfg\<lparr>url := ''https://ab.io/>q=1''\<rparr>\<rparr>)]"
  by (simp add: crawl_def make_requests_def ex_input2_def ex_input_def ex_colliding_keys
        handle_request_returned handler_page_ok)

lemma map_set_twice: "map_set k v (map_set k v' xs) = map_set k v xs"
  by (induction xs) auto

lemma requestHandler_blocked_results:
  "block_detected page \<Longrightarrow>
   urlResults (snd (requestHandler s r page st)) =
     map_set (userData_urlKey r)
       \<lparr>screenshotBuffer = None, fullPageScreenshot = Some (fullPage_screenshot page),
        content = None, urlConfig = userData_urlConfig r\<rparr> (urlResults st)"
  by (auto simp add: requestHandler_def block_detected_def Let_def set_result_def log_line_def)

lemma handle_request_blocked_results:
  assumes "\<And>j. block_detected (pages j)" and "\<And>j. fullPage_screenshot (pages j) = fp"
    and "k \<le> m"
  shows "urlResults (snd (snd (handle_request s m r pages k st))) =
     map_set (userData_urlKey r)
       \<lparr>screenshotBuffer = None, fullPageScreenshot = Some fp,
        content = None, urlConfig = userData_urlConfig r\<rparr> (urlResults st)"
  using assms(3)
proof (induction "m - k" arbitrary: k st)
  case 0
  have nr: "fst (requestHandler s r (pages k) st) \<noteq> Returned"
    using assms(1) [of k] requestHandler_blocked [where page = "pages k" and s = s and r = r and st = st]
    by simp
  from 0 have "\<not> k < m" by simp
  then show ?case
    using nr handle_request_exhausted [where s = s and r = r and pages = pages and k = k
        and st = st and m = m]
      assms(1) [of k] assms(2) [of k]
      requestHandler_blocked_results [where page = "pages k" and s = s and r = r and st = st]
    by simp
next
  case (Suc d)
  have nr: "fst (requestHandler s r (pages k) st) \<noteq> Returned"
    using assms(1) [of k] requestHandler_blocked [where page = "pages k" and s = s and r = r and st = st]
    by simp
  from Suc have lt: "k < m" by simp
  have "d = m - (k + 1)" using Suc.hyps(2) by simp
  moreover have "k + 1 \<le> m" using lt by simp
  ultimately have
    "urlResults (snd (snd (handle_request s m r pages (k + 1)
        (snd (requestHandler s r (pages k) st))))) =
     map_set (userData_urlKey r)
       \<lparr>screenshotBuffer = None, fullPageScreenshot = Some fp,
        content = None, urlConfig = userData_urlConfig r\<rparr>
       (urlResults (snd (requestHandler s r (pages k) st)))"
    by (rule Suc.hyps(1))
  then show ?case
    using nr lt handle_request_retry [where s = s and r = r and pages = pages and k = k
        and st = st and m = m]
      assms(1) [of k] assms(2) [of k]
      requestHandler_blocked_results [where page = "pages k" and s = s and r = r and st = st]
    by (simp add: map_set_twice)
qed

lemma crawl_blocked:
  "urlResults (crawl (ex_input OnBlock) (\<lambda>u k. page_blocked)) =
     [(''aHR0cHM6Ly9hYi5pby8'',
       \<lparr>screenshotBuffer = None, fullPageScreenshot = Some [9], content = None,
        urlConfig = ex_cfg\<rparr>)]"
proof -
  have "urlResults (snd (snd (handle_request OnBlock 5 ex_request (\<lambda>k. page_blocked) 0
            \<lparr>urlResults = [], crawlLog = []\<rparr>))) =
     map_set (userData_urlKey ex_request)
       \<lparr>screenshotBuffer = None, fullPageScreenshot = Some [9],
        content = None, urlConfig = userData_urlConfig ex_request\<rparr>
       (urlResults \<lparr>urlResults = [], crawlLog = []\<rparr>)"
    by (rule handle_request_blocked_results)
       (simp_all add: block_detected_def page_blocked_def page_ok_def)
  then show ?thesis
    by (simp add: crawl_def ex_requests ex_params maxRequestRetries_def ex_request_def)
qed

lemma run_blocked:
  "run_actor ex_env (ex_input OnBlock) (\<lambda>u k. page_blocked) Map.empty =
     ([(''aHR0cHM6Ly9hYi5pby8'', FailedScreenshot)], False,
      \<lparr>store = Map.empty,
       effects = [HandleFailedAndThrow
                    \<lparr>failed_type = ''screenshot'', failed_fullPageScreenshot = Some [9],
                     failed_informOnError = ''false'', failed_sendNotificationTo = ''me@ab.io'',
                     failed_url = ''https://ab.io/''\<rparr>]\<rparr>)"
  by (simp add: run_actor_def crawl_blocked)
     (simp add: process_result_def failed_args_def emit_def ex_env_def ex_input_def ex_cfg_def)

lemma ex_selector_failure: "selector_failure (userData_urlConfig ex_request) page_no_content"
  by (simp add: selector_failure_def ex_request_def ex_cfg_def page_no_content_def page_ok_def)

lemma requestHandler_throws:
  assumes "server_error page \<or> block_detected page"
  shows "fst (requestHandler s r page st) \<noteq> Returned"
  using assms requestHandler_server_error [of page s r st] requestHandler_blocked [of page s r st]
  by auto

lemma classify_step:
  "fst (compare_and_report env inp k cfg sb c w) =
   (case store w (''previousScreenshot_'' @ k @ ''.png'') of
      None \<Rightarrow> FirstRun
    | Some p \<Rightarrow> if store w (''previousData_'' @ k) = Some (Str c) then Unchanged else Changed)"
  by (simp add: compare_and_report_def Let_def store_set_def setValue_def getValue_def emit_def
        split: option.splits)




section \<open>The claims\<close>

subsection \<open>C1: two runs in succession on an unchanged page\<close>

text \<open>
  Claim C1 says that a second run on an unchanged page yields \<open>Unchanged\<close>, not
  \<open>FirstRun\<close>. The program at the example input: one url, every visit succeeds with
  the same content and screenshot. Started from an empty store, the first run is a
  first run and so is the second, run on the store the first one left: the first-run
  branch writes no previous screenshot, and the other branch writes the loaded
  previous values back (lines 240-241). Started from a store holding an older
  baseline, both runs report a change for the same reason. The stored previous
  content itself is never altered (\<open>process_result_keeps_previous\<close>).
\<close>

theorem second_run_repeats_first_run:
  "fst (run_actor ex_env (ex_input OnBlock) (\<lambda>u k. page_ok) Map.empty)
     = [(''aHR0cHM6Ly9hYi5pby8'', FirstRun)]
   \<and> fst (run_actor ex_env (ex_input OnBlock) (\<lambda>u k. page_ok)
           (store (snd (snd (run_actor ex_env (ex_input OnBlock) (\<lambda>u k. page_ok) Map.empty)))))
     = [(''aHR0cHM6Ly9hYi5pby8'', FirstRun)]
   \<and> fst (run_actor ex_env (ex_input OnBlock) (\<lambda>u k. page_ok) ex_baseline)
     = [(''aHR0cHM6Ly9hYi5pby8'', Changed)]
   \<and> fst (run_actor ex_env (ex_input OnBlock) (\<lambda>u k. page_ok)
           (store (snd (snd (run_actor ex_env (ex_input OnBlock) (\<lambda>u k. page_ok) ex_baseline)))))
     = [(''aHR0cHM6Ly9hYi5pby8'', Changed)]"
proof -
  let ?run = "run_actor ex_env (ex_input OnBlock) (\<lambda>u k. page_ok)"
  have a: "fst (?run Map.empty) = [(''aHR0cHM6Ly9hYi5pby8'', FirstRun)]"
    by (simp add: run_ok_outcome)
  have b: "fst (?run (store (snd (snd (?run Map.empty))))) = [(''aHR0cHM6Ly9hYi5pby8'', FirstRun)]"
    by (simp only: run_ok_outcome run_ok_previous) simp
  have c: "fst (?run ex_baseline) = [(''aHR0cHM6Ly9hYi5pby8'', Changed)]"
    by (simp add: run_ok_outcome ex_baseline_def)
  have d: "fst (?run (store (snd (snd (?run ex_baseline))))) = [(''aHR0cHM6Ly9hYi5pby8'', Changed)]"
    by (simp only: run_ok_outcome run_ok_previous) (simp add: ex_baseline_def)
  from a b c d show ?thesis by (intro conjI)
qed

subsection \<open>C2: classification of the comparison\<close>

text \<open>
  Claim C2: the comparison step, for every current content \<open>c\<close>, takes the
  first-run branch when the store has no previous screenshot for the key (the
  program's test for an absent baseline, line 225); otherwise it takes the no-change
  branch exactly when the stored previous content is the string \<open>c\<close> itself, and
  the change branch in every other case. The comparison is equality of strings:
  nothing is trimmed or folded, as the instances below show for a difference of case
  and for a trailing blank. The loop reaches the comparison step with every result
  that has a screenshot and a non-empty content.
\<close>

theorem diff_classification:
  "fst (compare_and_report env inp k cfg sb c w) =
     (if store w (''previousScreenshot_'' @ k @ ''.png'') = None then FirstRun
      else if store w (''previousData_'' @ k) = Some (Str c) then Unchanged else Changed)
   \<and> (c \<noteq> [] \<longrightarrow>
        fst (process_result env inp k
               \<lparr>screenshotBuffer = Some sb, fullPageScreenshot = fp, content = Some c,
                urlConfig = cfg\<rparr> w) =
        fst (compare_and_report env inp k cfg sb c w))"
  using classify_step [of env inp k cfg sb c w]
  by (simp add: process_result_def split_beta split: option.splits)

theorem diff_classification_witness:
  "''Hello'' \<noteq> [] \<and> ''hello'' \<noteq> [] \<and> ''Hello '' \<noteq> []
   \<and> fst (process_result ex_env (ex_input OnBlock) ''k''
        \<lparr>screenshotBuffer = Some [1, 2, 3], fullPageScreenshot = None, content = Some ''Hello'',
         urlConfig = ex_cfg\<rparr> ex_world) = Unchanged
   \<and> fst (process_result ex_env (ex_input OnBlock) ''k''
        \<lparr>screenshotBuffer = Some [1, 2, 3], fullPageScreenshot = None, content = Some ''hello'',
         urlConfig = ex_cfg\<rparr> ex_world) = Changed
   \<and> fst (process_result ex_env (ex_input OnBlock) ''k''
        \<lparr>screenshotBuffer = Some [1, 2, 3], fullPageScreenshot = None, content = Some ''Hello '',
         urlConfig = ex_cfg\<rparr> ex_world) = Changed
   \<and> fst (process_result ex_env (ex_input OnBlock) ''j''
        \<lparr>screenshotBuffer = Some [1, 2, 3], fullPageScreenshot = None, content = Some ''Hello'',
         urlConfig = ex_cfg\<rparr> ex_world) = FirstRun"
  using diff_classification
          [of ex_env "ex_input OnBlock" "''k''" ex_cfg "[1, 2, 3]" "''Hello''" ex_world None]
        diff_classification
          [of ex_env "ex_input OnBlock" "''k''" ex_cfg "[1, 2, 3]" "''hello''" ex_world None]
        diff_classification
          [of ex_env "ex_input OnBlock" "''k''" ex_cfg "[1, 2, 3]" "''Hello ''" ex_world None]
        diff_classification
          [of ex_env "ex_input OnBlock" "''j''" ex_cfg "[1, 2, 3]" "''Hello''" ex_world None]
  by (simp add: ex_world_def)

subsection \<open>C3: the attachment budget\<close>



subsection \<open>C4: a failed selector\<close>

text \<open>
  Claim C4: when the visit with retry count \<open>k\<close> fails to extract the content or the
  element screenshot, the crawler visits the page again only under
  \<open>on-all-errors\<close>, and only while \<open>k\<close> is below \<open>maxRetries\<close>; under
  \<open>on-block\<close> and \<open>never-retry\<close> the handler returns, so that visit is the last
  one. In each case the result recorded for the key holds the full-page screenshot
  only, which the processing loop hands to the failure handler.
\<close>

theorem selector_failure_retry_policy:
  assumes "selector_failure (userData_urlConfig request) (pages k)"
  shows "handle_request strategy (maxRequestRetries strategy mr) request pages k st =
           (if strategy = OnAllErrors then
              (if k < mr
               then handle_request strategy (maxRequestRetries strategy mr) request pages (k + 1)
                      (snd (requestHandler strategy request (pages k) st))
               else (Failed, k + 1, snd (requestHandler strategy request (pages k) st)))
            else (Handled, k + 1, snd (requestHandler strategy request (pages k) st)))
         \<and> map_of (urlResults (snd (requestHandler strategy request (pages k) st)))
             (userData_urlKey request) =
             Some \<lparr>screenshotBuffer = None,
                   fullPageScreenshot = Some (fullPage_screenshot (pages k)),
                   content = None, urlConfig = userData_urlConfig request\<rparr>
         \<and> fst (process_result env inp (userData_urlKey request)
                  \<lparr>screenshotBuffer = None,
                   fullPageScreenshot = Some (fullPage_screenshot (pages k)),
                   content = None, urlConfig = userData_urlConfig request\<rparr> w) = FailedScreenshot"
proof -
  have ret: "(fst (requestHandler strategy request (pages k) st) = Returned) = (strategy \<noteq> OnAllErrors)"
    using assms by (rule requestHandler_selector_failure_fst)
  have loop: "handle_request strategy (maxRequestRetries strategy mr) request pages k st =
           (if strategy = OnAllErrors then
              (if k < mr
               then handle_request strategy (maxRequestRetries strategy mr) request pages (k + 1)
                      (snd (requestHandler strategy request (pages k) st))
               else (Failed, k + 1, snd (requestHandler strategy request (pages k) st)))
            else (Handled, k + 1, snd (requestHandler strategy request (pages k) st)))"
  proof (cases "strategy = OnAllErrors")
    case True
    with ret have nr: "fst (requestHandler strategy request (pages k) st) \<noteq> Returned" by simp
    have m: "maxRequestRetries strategy mr = mr" using True by (simp add: maxRequestRetries_def)
    show ?thesis
    proof (cases "k < mr")
      case lt: True
      then show ?thesis
        using True nr m
          handle_request_retry [where s = strategy and r = request and pages = pages and k = k
            and st = st and m = mr]
        by simp
    next
      case ge: False
      then show ?thesis
        using True nr m
          handle_request_exhausted [where s = strategy and r = request and pages = pages and k = k
            and st = st and m = mr]
        by simp
    qed
  next
    case False
    with ret have "fst (requestHandler strategy request (pages k) st) = Returned" by simp
    then show ?thesis
      using False
        handle_request_returned [where s = strategy and r = request and pages = pages and k = k
          and st = st and m = "maxRequestRetries strategy mr"]
      by simp
  qed
  have entry: "map_of (urlResults (snd (requestHandler strategy request (pages k) st)))
             (userData_urlKey request) =
             Some \<lparr>screenshotBuffer = None,
                   fullPageScreenshot = Some (fullPage_screenshot (pages k)),
                   content = None, urlConfig = userData_urlConfig request\<rparr>"
    using assms by (rule requestHandler_selector_failure_entry)
  have fin: "fst (process_result env inp (userData_urlKey request)
                  \<lparr>screenshotBuffer = None,
                   fullPageScreenshot = Some (fullPage_screenshot (pages k)),
                   content = None, urlConfig = userData_urlConfig request\<rparr> w) = FailedScreenshot"
    by (simp add: process_result_def)
  from loop entry fin show ?thesis by (intro conjI)
qed

theorem selector_failure_retry_policy_witness:
  "selector_failure (userData_urlConfig ex_request) ((\<lambda>k. page_no_content) 0)
   \<and> fst (handle_request OnBlock (maxRequestRetries OnBlock 5) ex_request (\<lambda>k. page_no_content) 0
        \<lparr>urlResults = [], crawlLog = []\<rparr>) = Handled
   \<and> fst (snd (handle_request OnBlock (maxRequestRetries OnBlock 5) ex_request (\<lambda>k. page_no_content) 0
        \<lparr>urlResults = [], crawlLog = []\<rparr>)) = 1
   \<and> fst (snd (handle_request NeverRetry (maxRequestRetries NeverRetry 5) ex_request (\<lambda>k. page_no_content) 0
        \<lparr>urlResults = [], crawlLog = []\<rparr>)) = 1
   \<and> handle_request OnAllErrors (maxRequestRetries OnAllErrors 5) ex_request (\<lambda>k. page_no_content) 0
        \<lparr>urlResults = [], crawlLog = []\<rparr>
     = handle_request OnAllErrors (maxRequestRetries OnAllErrors 5) ex_request (\<lambda>k. page_no_content) 1
        (snd (requestHandler OnAllErrors ex_request page_no_content \<lparr>urlResults = [], crawlLog = []\<rparr>))"
  using ex_selector_failure
    selector_failure_retry_policy
      [where request = ex_request and pages = "\<lambda>k. page_no_content" and k = 0
         and strategy = OnBlock and mr = 5 and st = "\<lparr>urlResults = [], crawlLog = []\<rparr>"]
    selector_failure_retry_policy
      [where request = ex_request and pages = "\<lambda>k. page_no_content" and k = 0
         and strategy = NeverRetry and mr = 5 and st = "\<lparr>urlResults = [], crawlLog = []\<rparr>"]
    selector_failure_retry_policy
      [where request = ex_request and pages = "\<lambda>k. page_no_content" and k = 0
         and strategy = OnAllErrors and mr = 5 and st = "\<lparr>urlResults = [], crawlLog = []\<rparr>"]
  by simp

subsection \<open>C5: status 404\<close>




subsection \<open>C6: server errors and blocks\<close>

text \<open>
  Claim C6: when the visit with retry count \<open>k\<close> answers a status from 400 other
  than 404, or is found blocked, it is followed by another visit exactly when the
  strategy is not \<open>never-retry\<close> and \<open>k\<close> is below \<open>maxRetries\<close>; otherwise the
  request has failed. When every visit is of this kind, the request fails after one
  visit under \<open>never-retry\<close> and after \<open>maxRetries + 1\<close> visits (the first one and
  \<open>maxRetries\<close> retries) under the other two strategies.
\<close>

theorem server_error_blocked_retry_policy:
  "(server_error (pages k) \<or> block_detected (pages k) \<longrightarrow>
      handle_request strategy (maxRequestRetries strategy mr) request pages k st =
        (if strategy \<noteq> NeverRetry \<and> k < mr
         then handle_request strategy (maxRequestRetries strategy mr) request pages (k + 1)
                (snd (requestHandler strategy request (pages k) st))
         else (Failed, k + 1, snd (requestHandler strategy request (pages k) st))))
   \<and> ((\<forall>j. server_error (pages j) \<or> block_detected (pages j)) \<longrightarrow>
        fst (handle_request strategy (maxRequestRetries strategy mr) request pages 0 st) = Failed \<and>
        fst (snd (handle_request strategy (maxRequestRetries strategy mr) request pages 0 st)) =
          (if strategy = NeverRetry then 1 else mr + 1))"
proof (intro conjI impI)
  assume thrown: "server_error (pages k) \<or> block_detected (pages k)"
  then have nr: "fst (requestHandler strategy request (pages k) st) \<noteq> Returned"
    by (rule requestHandler_throws)
  show "handle_request strategy (maxRequestRetries strategy mr) request pages k st =
           (if strategy \<noteq> NeverRetry \<and> k < mr
            then handle_request strategy (maxRequestRetries strategy mr) request pages (k + 1)
                   (snd (requestHandler strategy request (pages k) st))
            else (Failed, k + 1, snd (requestHandler strategy request (pages k) st)))"
  proof (cases "k < maxRequestRetries strategy mr")
    case True
    then have "strategy \<noteq> NeverRetry \<and> k < mr"
      by (simp add: maxRequestRetries_def split: if_splits)
    then show ?thesis
      using True nr
        handle_request_retry [where s = strategy and r = request and pages = pages and k = k
          and st = st and m = "maxRequestRetries strategy mr"]
      by simp
  next
    case False
    then have notc: "\<not> (strategy \<noteq> NeverRetry \<and> k < mr)"
      by (simp add: maxRequestRetries_def split: if_splits)
    have ex: "handle_request strategy (maxRequestRetries strategy mr) request pages k st =
        (Failed, k + 1, snd (requestHandler strategy request (pages k) st))"
      using False nr
        handle_request_exhausted [where s = strategy and r = request and pages = pages and k = k
          and st = st and m = "maxRequestRetries strategy mr"]
      by simp
    show ?thesis unfolding if_not_P [OF notc] by (rule ex)
  qed
next
  assume all: "\<forall>j. server_error (pages j) \<or> block_detected (pages j)"
  have nr: "\<And>j st'. fst (requestHandler strategy request (pages j) st') \<noteq> Returned"
    using all requestHandler_throws by blast
  have total: "fst (handle_request strategy (maxRequestRetries strategy mr) request pages 0 st) = Failed \<and>
      fst (snd (handle_request strategy (maxRequestRetries strategy mr) request pages 0 st)) =
        maxRequestRetries strategy mr + 1"
    using nr by (intro handle_request_all_throw) simp_all
  from total show "fst (handle_request strategy (maxRequestRetries strategy mr) request pages 0 st) = Failed"
    by simp
  from total show "fst (snd (handle_request strategy (maxRequestRetries strategy mr) request pages 0 st)) =
          (if strategy = NeverRetry then 1 else mr + 1)"
    by (simp add: maxRequestRetries_def)
qed

theorem server_error_blocked_retry_policy_witness:
  "(server_error ((\<lambda>k. page_503) 0) \<or> block_detected ((\<lambda>k. page_503) 0))
   \<and> (\<forall>j. server_error ((\<lambda>k. page_503) j) \<or> block_detected ((\<lambda>k. page_503) j))
   \<and> handle_request OnBlock (maxRequestRetries OnBlock 5) ex_request (\<lambda>k. page_503) 0
        \<lparr>urlResults = [], crawlLog = []\<rparr>
     = handle_request OnBlock (maxRequestRetries OnBlock 5) ex_request (\<lambda>k. page_503) 1
        (snd (requestHandler OnBlock ex_request page_503 \<lparr>urlResults = [], crawlLog = []\<rparr>))
   \<and> fst (snd (handle_request OnBlock (maxRequestRetries OnBlock 5) ex_request (\<lambda>k. page_503) 0
        \<lparr>urlResults = [], crawlLog = []\<rparr>)) = 6
   \<and> fst (snd (handle_request OnAllErrors (maxRequestRetries OnAllErrors 5) ex_request (\<lambda>k. page_503) 0
        \<lparr>urlResults = [], crawlLog = []\<rparr>)) = 6
   \<and> fst (snd (handle_request NeverRetry (maxRequestRetries NeverRetry 5) ex_request (\<lambda>k. page_503) 0
        \<lparr>urlResults = [], crawlLog = []\<rparr>)) = 1
   \<and> fst (handle_request NeverRetry (maxRequestRetries NeverRetry 5) ex_request (\<lambda>k. page_503) 0
        \<lparr>urlResults = [], crawlLog = []\<rparr>) = Failed"
proof -
  have h: "\<forall>j. server_error ((\<lambda>k. page_503) j) \<or> block_detected ((\<lambda>k. page_503) j)"
    by (simp add: server_error_503)
  have one: "handle_request OnBlock (maxRequestRetries OnBlock 5) ex_request (\<lambda>k. page_503) 0
        \<lparr>urlResults = [], crawlLog = []\<rparr>
     = handle_request OnBlock (maxRequestRetries OnBlock 5) ex_request (\<lambda>k. page_503) 1
        (snd (requestHandler OnBlock ex_request page_503 \<lparr>urlResults = [], crawlLog = []\<rparr>))"
    using h
      server_error_blocked_retry_policy
        [where pages = "\<lambda>k. page_503" and strategy = OnBlock and mr = 5 and request = ex_request
           and k = 0 and st = "\<lparr>urlResults = [], crawlLog = []\<rparr>", THEN conjunct1]
    by simp
  have rest: "fst (snd (handle_request OnBlock (maxRequestRetries OnBlock 5) ex_request (\<lambda>k. page_503) 0
        \<lparr>urlResults = [], crawlLog = []\<rparr>)) = 6
   \<and> fst (snd (handle_request OnAllErrors (maxRequestRetries OnAllErrors 5) ex_request (\<lambda>k. page_503) 0
        \<lparr>urlResults = [], crawlLog = []\<rparr>)) = 6
   \<and> fst (snd (handle_request NeverRetry (maxRequestRetries NeverRetry 5) ex_request (\<lambda>k. page_503) 0
        \<lparr>urlResults = [], crawlLog = []\<rparr>)) = 1
   \<and> fst (handle_request NeverRetry (maxRequestRetries NeverRetry 5) ex_request (\<lambda>k. page_503) 0
        \<lparr>urlResults = [], crawlLog = []\<rparr>) = Failed"
    using h
      server_error_blocked_retry_policy
        [where pages = "\<lambda>k. page_503" and strategy = OnBlock and mr = 5 and request = ex_request
           and k = 0 and st = "\<lparr>urlResults = [], crawlLog = []\<rparr>", THEN conjunct2]
      server_error_blocked_retry_policy
        [where pages = "\<lambda>k. page_503" and strategy = OnAllErrors and mr = 5
           and request = ex_request and k = 0
           and st = "\<lparr>urlResults = [], crawlLog = []\<rparr>", THEN conjunct2]
      server_error_blocked_retry_policy
        [where pages = "\<lambda>k. page_503" and strategy = NeverRetry and mr = 5
           and request = ex_request and k = 0
           and st = "\<lparr>urlResults = [], crawlLog = []\<rparr>", THEN conjunct2]
    by simp
  from h one rest show ?thesis by simp
qed


subsection \<open>C7: a url whose retries are exhausted\<close>

text \<open>
  Claim C7 says that a url that exhausts its retries ends as a failure record with
  the fallback screenshot. The program at the example input: one url, strategy
  \<open>on-block\<close>, the default of five retries, every visit answers 503. The handler
  throws at line 116 before anything is recorded, so after the sixth visit the
  request has failed and \<^verbatim>\<open>urlResults\<close> is empty: the processing loop has no entry
  for the url, the failure handler is not called and nothing is pushed. A blocked
  page, for which the handler records the full-page screenshot before it rethrows,
  does reach the failure handler (\<open>run_blocked\<close>).
\<close>

theorem exhausted_server_error_leaves_no_record:
  "handle_request OnBlock (maxRequestRetries OnBlock 5) ex_request (\<lambda>k. page_503) 0
     \<lparr>urlResults = [], crawlLog = []\<rparr> = (Failed, 6, \<lparr>urlResults = [], crawlLog = []\<rparr>)
   \<and> run_actor ex_env (ex_input OnBlock) (\<lambda>u k. page_503) Map.empty
      = ([], False, \<lparr>store = Map.empty, effects = []\<rparr>)"
  by (simp add: run_actor_def crawl_503 handle_request_server_errors server_error_503
        maxRequestRetries_def)

subsection \<open>C8: the key of a url\<close>

text \<open>
  Claim C8 says that the keys of two urls collide only when the urls are the same.
  The key is a function of the url, so it is the same in every run; but the
  characters \<^verbatim>\<open>+\<close>, \<^verbatim>\<open>/\<close> and \<^verbatim>\<open>=\<close> of the base64 text are removed, and urls whose
  base64 texts differ in these characters only get the same key. Two such pairs of
  urls are evaluated here. With the second pair as the input, the results of the
  crawl hold one entry: the result of the first url is overwritten by the second.
\<close>

theorem urlKey_collision:
  "''https://ab.io/'' \<noteq> ''https://ab.io/?''
   \<and> urlKey_of ''https://ab.io/'' = urlKey_of ''https://ab.io/?''
   \<and> ''https://ab.io/?q=1'' \<noteq> ''https://ab.io/>q=1''
   \<and> urlKey_of ''https://ab.io/?q=1'' = urlKey_of ''https://ab.io/>q=1''
   \<and> map fst (urlResults (crawl ex_input2 (\<lambda>u k. page_ok))) = [''aHR0cHM6Ly9hYi5pby8cT0x'']"
  by (simp add: ex_key ex_colliding_keys colliding_urls_share_one_result)
     (simp add: urlKey_of_def Buffer_from_def base64_alphabet_def b64_char_def is_alnum_def)

subsection \<open>C9: an empty content\<close>

text \<open>
  Claim C9: a result whose content is the empty string is processed exactly as the
  same result without a content: the failure handler is called with the type
  \<^verbatim>\<open>screenshot\<close> and the result's full-page screenshot, the store is not touched and
  nothing else happens. A result without a screenshot buffer goes the same way,
  whatever its content.
\<close>

theorem empty_content_routed_to_failure:
  "process_result env inp k
     \<lparr>screenshotBuffer = Some sb, fullPageScreenshot = fp, content = Some [], urlConfig = cfg\<rparr> w
   = process_result env inp k
     \<lparr>screenshotBuffer = Some sb, fullPageScreenshot = fp, content = None, urlConfig = cfg\<rparr> w
   \<and> process_result env inp k
     \<lparr>screenshotBuffer = Some sb, fullPageScreenshot = fp, content = Some [], urlConfig = cfg\<rparr> w
   = (FailedContent,
      handleFailed_throws env
        \<lparr>failed_type = ''screenshot'', failed_fullPageScreenshot = fp,
         failed_informOnError = informOnError inp,
         failed_sendNotificationTo = sendNotificationTo inp, failed_url = url cfg\<rparr>,
      w\<lparr>effects := effects w @
          [HandleFailedAndThrow
             \<lparr>failed_type = ''screenshot'', failed_fullPageScreenshot = fp,
              failed_informOnError = informOnError inp,
              failed_sendNotificationTo = sendNotificationTo inp, failed_url = url cfg\<rparr>]\<rparr>)
   \<and> process_result env inp k
     \<lparr>screenshotBuffer = None, fullPageScreenshot = fp, content = c, urlConfig = cfg\<rparr> w
   = (FailedScreenshot,
      handleFailed_throws env
        \<lparr>failed_type = ''screenshot'', failed_fullPageScreenshot = fp,
         failed_informOnError = informOnError inp,
         failed_sendNotificationTo = sendNotificationTo inp, failed_url = url cfg\<rparr>,
      w\<lparr>effects := effects w @
          [HandleFailedAndThrow
             \<lparr>failed_type = ''screenshot'', failed_fullPageScreenshot = fp,
              failed_informOnError = informOnError inp,
              failed_sendNotificationTo = sendNotificationTo inp, failed_url = url cfg\<rparr>]\<rparr>)"
  by (simp add: process_result_def failed_args_def emit_def)

subsection \<open>C10: the first-run test reads the previous screenshot only\<close>

text \<open>
  Claim C10: the comparison step takes the first-run branch exactly when the store
  has no previous screenshot for the key, whatever it holds as previous content; and
  when there is a previous screenshot but no previous content, the comparison of the
  absent content with the current one fails and the change branch is taken. The loop
  reaches the comparison step with every result that has a screenshot and a
  non-empty content.
\<close>

theorem first_run_depends_on_screenshot_only:
  "((fst (compare_and_report env inp k cfg sb c w) = FirstRun)
      = (store w (''previousScreenshot_'' @ k @ ''.png'') = None))
   \<and> (store w (''previousScreenshot_'' @ k @ ''.png'') \<noteq> None \<and>
      store w (''previousData_'' @ k) = None \<longrightarrow>
      fst (compare_and_report env inp k cfg sb c w) = Changed)
   \<and> (c \<noteq> [] \<longrightarrow>
        fst (process_result env inp k
               \<lparr>screenshotBuffer = Some sb, fullPageScreenshot = fp, content = Some c,
                urlConfig = cfg\<rparr> w) =
        fst (compare_and_report env inp k cfg sb c w))"
  using classify_step [of env inp k cfg sb c w]
  by (auto simp add: process_result_def split_beta split: option.splits)

theorem first_run_depends_on_screenshot_only_witness:
  "''hello'' \<noteq> []
   \<and> fst (process_result ex_env (ex_input OnBlock) ''k''
        \<lparr>screenshotBuffer = Some [1, 2, 3], fullPageScreenshot = None, content = Some ''hello'',
         urlConfig = ex_cfg\<rparr>
        \<lparr>store = [''previousData_k'' \<mapsto> Str ''hello''], effects = []\<rparr>) = FirstRun
   \<and> [''previousScreenshot_k.png'' \<mapsto> Buf [7]] ''previousScreenshot_k.png'' \<noteq> None
   \<and> [''previousScreenshot_k.png'' \<mapsto> Buf [7]] ''previousData_k'' = None
   \<and> fst (process_result ex_env (ex_input OnBlock) ''k''
        \<lparr>screenshotBuffer = Some [1, 2, 3], fullPageScreenshot = None, content = Some ''hello'',
         urlConfig = ex_cfg\<rparr>
        \<lparr>store = [''previousScreenshot_k.png'' \<mapsto> Buf [7]], effects = []\<rparr>) = Changed"
  using first_run_depends_on_screenshot_only
          [of ex_env "ex_input OnBlock" "''k''" ex_cfg "[1, 2, 3]" "''hello''"
              "\<lparr>store = [''previousData_k'' \<mapsto> Str ''hello''], effects = []\<rparr>" None]
        first_run_depends_on_screenshot_only
          [of ex_env "ex_input OnBlock" "''k''" ex_cfg "[1, 2, 3]" "''hello''"
              "\<lparr>store = [''previousScreenshot_k.png'' \<mapsto> Buf [7]], effects = []\<rparr>" None]
  by simp


end
